theory Spec2Isabelle
  imports Main "HOL-Library.Char_ord" "HOL-Library.List_Lexorder"
begin

section \<open>The diagnostic script \<open>debug.py\<close>\<close>

text \<open>
  The script takes one dotted path \<open>TARGET\<close>, prints a header, splits the path at its
  last dot, imports the module named by the prefix and looks the suffix up in the loaded
  module, printing what happens. Three \<open>except\<close> clauses report the failures.

  Strings are byte strings in UTF-8 (the bytes the script writes to standard output), so
  the four pictographs of the source are the byte sequences below. The byte of the dot
  never occurs inside a multi-byte sequence, so splitting at dots is the same on bytes as
  on code points.

  The interpreter is outside the script. It is taken as a parameter: the import
  mechanism is a function from the module name and the state of the process to either an
  exception or a module object, and the new state of the process; \<open>repr\<close> of a string
  is a function on strings. Standard output is a parameter too: it takes a line or raises,
  as it does for a character it cannot encode. \<open>str\<close> of an exception is taken not to
  fail.
\<close>

subsection \<open>Exceptions\<close>

datatype pyclass =
    BaseException | Exception
  | ImportError | ModuleNotFoundError
  | AttributeError | NameError | ValueError | TypeError | SyntaxError
  | UnicodeError | UnicodeEncodeError
  | RuntimeError | RecursionError
  | SystemExit | KeyboardInterrupt

text \<open>The method resolution order of each class: the class and its bases.\<close>

fun mro :: "pyclass \<Rightarrow> pyclass list" where
  "mro BaseException = [BaseException]"
| "mro Exception = [Exception, BaseException]"
| "mro ImportError = [ImportError, Exception, BaseException]"
| "mro ModuleNotFoundError = [ModuleNotFoundError, ImportError, Exception, BaseException]"
| "mro AttributeError = [AttributeError, Exception, BaseException]"
| "mro NameError = [NameError, Exception, BaseException]"
| "mro ValueError = [ValueError, Exception, BaseException]"
| "mro TypeError = [TypeError, Exception, BaseException]"
| "mro SyntaxError = [SyntaxError, Exception, BaseException]"
| "mro UnicodeError = [UnicodeError, ValueError, Exception, BaseException]"
| "mro UnicodeEncodeError =
     [UnicodeEncodeError, UnicodeError, ValueError, Exception, BaseException]"
| "mro RuntimeError = [RuntimeError, Exception, BaseException]"
| "mro RecursionError = [RecursionError, RuntimeError, Exception, BaseException]"
| "mro SystemExit = [SystemExit, BaseException]"
| "mro KeyboardInterrupt = [KeyboardInterrupt, BaseException]"

definition issubclass :: "pyclass \<Rightarrow> pyclass \<Rightarrow> bool" where
  "issubclass c d = (d \<in> set (mro c))"

text \<open>An exception object: its class and the text \<open>str(e)\<close> gives.\<close>

datatype exn = Exn (exn_class: pyclass) (exn_str: string)

definition isinstance :: "exn \<Rightarrow> pyclass \<Rightarrow> bool" where
  "isinstance e d = issubclass (exn_class e) d"


subsection \<open>Values and module objects\<close>

text \<open>
  The values the script formats: \<open>None\<close>, a string, or any other object, kept as the
  text \<open>str\<close> gives for it.
\<close>

datatype pyval = PyNone | PyStr string | PyObj string

fun str_of :: "pyval \<Rightarrow> string" where
  "str_of PyNone = ''None''"
| "str_of (PyStr s) = s"
| "str_of (PyObj s) = s"

text \<open>
  A module object, as attribute access and \<open>dir\<close> see it:
  \<^item> \<open>mod_dict\<close>, the module's dictionary;
  \<^item> \<open>type_data\<close>, the attributes its type answers before the dictionary is asked
    (\<open>__class__\<close>, \<open>__dict__\<close>), and \<open>type_other\<close>, those its type answers after the
    dictionary (the methods every object has);
  \<^item> \<open>getattr_hook\<close>, the function the module defines under \<open>__getattr__\<close>, when it
    does: it is called for a name found nowhere else, and returns or raises as it likes;
  \<^item> \<open>dir_hook\<close>, what the function the module defines under \<open>__dir__\<close> gives when
    called, when the module defines one.
\<close>

record pymodule =
  mod_dict :: "(string \<times> pyval) list"
  type_data :: "(string \<times> pyval) list"
  type_other :: "(string \<times> pyval) list"
  getattr_hook :: "(string \<Rightarrow> exn + pyval) option"
  dir_hook :: "(exn + string list) option"

text \<open>
  The AttributeError of a module for a name it does not have. The message names the
  module when its \<open>__name__\<close> is a string.
\<close>

definition no_attribute :: "pymodule \<Rightarrow> string \<Rightarrow> exn" where
  "no_attribute m name =
     Exn AttributeError
       (case map_of (mod_dict m) ''__name__'' of
          Some (PyStr n) \<Rightarrow> ''module '' @ [CHR 0x27] @ n @ [CHR 0x27] @ '' has no attribute ''
                               @ [CHR 0x27] @ name @ [CHR 0x27]
        | _ \<Rightarrow> ''module has no attribute '' @ [CHR 0x27] @ name @ [CHR 0x27])"

text \<open>
  Attribute access on a module, \<open>getattr(mod, name)\<close> and \<open>mod.name\<close> alike, in the
  order of the interpreter: the type's data attributes, the dictionary, the type's other
  attributes, the module's \<open>__getattr__\<close>, and AttributeError at last.
\<close>

definition getattr :: "pymodule \<Rightarrow> string \<Rightarrow> exn + pyval" where
  "getattr m name =
     (case map_of (type_data m) name of
        Some v \<Rightarrow> Inr v
      | None \<Rightarrow>
          (case map_of (mod_dict m) name of
             Some v \<Rightarrow> Inr v
           | None \<Rightarrow>
               (case map_of (type_other m) name of
                  Some v \<Rightarrow> Inr v
                | None \<Rightarrow>
                    (case getattr_hook m of
                       Some hook \<Rightarrow> hook name
                     | None \<Rightarrow> Inl (no_attribute m name)))))"

text \<open>
  \<open>dir(mod)\<close>: the sorted list of what the module's \<open>__dir__\<close> returns, or the
  exception it raises; for a module without \<open>__dir__\<close>, the sorted names of its
  dictionary.
\<close>

definition dir :: "pymodule \<Rightarrow> exn + string list" where
  "dir m =
     (case dir_hook m of
        None \<Rightarrow> Inr (sort (remdups (map fst (mod_dict m))))
      | Some (Inl e) \<Rightarrow> Inl e
      | Some (Inr names) \<Rightarrow> Inr (sort names))"

subsection \<open>String operations\<close>

text \<open>
  \<open>s.rsplit(sep, 1)\<close> for a separator of one character: at most one split, at the last
  occurrence of the separator; the string alone when the separator does not occur.
\<close>

definition rsplit1 :: "char \<Rightarrow> string \<Rightarrow> string list" where
  "rsplit1 sep s =
     (if sep \<in> set s
      then [rev (tl (dropWhile (\<lambda>c. c \<noteq> sep) (rev s))), rev (takeWhile (\<lambda>c. c \<noteq> sep) (rev s))]
      else [s])"

text \<open>
  The assignment \<open>a, b = xs\<close>: a list of two elements is unpacked, any other length
  raises ValueError and binds neither name.
\<close>

fun unpack2 :: "string list \<Rightarrow> exn + (string \<times> string)" where
  "unpack2 [a, b] = Inr (a, b)"
| "unpack2 [] = Inl (Exn ValueError ''not enough values to unpack (expected 2, got 0)'')"
| "unpack2 [a] = Inl (Exn ValueError ''not enough values to unpack (expected 2, got 1)'')"
| "unpack2 (a # b # c # xs) = Inl (Exn ValueError ''too many values to unpack (expected 2)'')"

fun join :: "string \<Rightarrow> string list \<Rightarrow> string" where
  "join sep [] = []"
| "join sep [x] = x"
| "join sep (x # y # ys) = x @ sep @ join sep (y # ys)"

text \<open>\<open>repr\<close> of a list of strings, given \<open>repr\<close> of a string.\<close>

definition repr_list :: "(string \<Rightarrow> string) \<Rightarrow> string list \<Rightarrow> string" where
  "repr_list repr_str xs = ''['' @ join '', '' (map repr_str xs) @ '']''"

subsection \<open>The process and the interpreter\<close>

text \<open>
  The state of the process, as far as the script reads it, and everything else in it
  (loaded modules, files, environment variables) as \<open>rest\<close>. Standard output is kept
  apart, in the events of a run.
\<close>

record 'x process =
  sys_executable :: pyval
  sys_path :: "string list"
  rest :: 'x

text \<open>
  What the script calls and does not define: \<open>importlib.import_module\<close>, which may
  change the process (it runs the module's code), and \<open>repr\<close> of a string.
\<close>

record 'x runtime =
  import_module :: "string \<Rightarrow> 'x process \<Rightarrow> (exn + pymodule) \<times> 'x process"
  repr_str :: "string \<Rightarrow> string"

text \<open>
  What a run does, in order: the lines it prints, the call of \<open>import_module\<close> with
  its argument, and the call \<open>getattr(mod, class_name)\<close> with the name looked up. The
  reads of \<open>mod.__file__\<close> and \<open>mod.__name__\<close> belong to the lines they are
  printed in.
\<close>

datatype event = is_Print: Print string | is_Import: Import string | is_Getattr: Getattr string

text \<open>The names \<open>module_name\<close>, \<open>class_name\<close> and \<open>mod\<close> that the \<open>try\<close> block binds;
  \<open>None\<close> is a name not bound yet.\<close>

record locals =
  var_module_name :: "string option"
  var_class_name :: "string option"
  var_mod :: "pymodule option"

record 'x run =
  events :: "event list"
  final :: "'x process"
  uncaught :: "exn option"

definition name_error :: "string \<Rightarrow> exn" where
  "name_error x = Exn NameError (''name '' @ [CHR 0x27] @ x @ [CHR 0x27] @ '' is not defined'')"

subsection \<open>The lines of the script\<close>

definition check_mark :: string where
  "check_mark = [CHR 0xE2, CHR 0x9C, CHR 0x85]"

definition folder_mark :: string where
  "folder_mark = [CHR 0xF0, CHR 0x9F, CHR 0x93, CHR 0x82]"

definition pointing_mark :: string where
  "pointing_mark = [CHR 0xF0, CHR 0x9F, CHR 0x91, CHR 0x89]"

definition cross_mark :: string where
  "cross_mark = [CHR 0xE2, CHR 0x9D, CHR 0x8C]"

definition header :: "(string \<Rightarrow> string) \<Rightarrow> string \<Rightarrow> 'x process \<Rightarrow> string list" where
  "header repr TARGET s =
     [''--- Debugging: '' @ TARGET @ '' ---'',
      ''Python Executable: '' @ str_of (sys_executable s),
      ''Path: '' @ repr_list repr (sys_path s)]"

definition line_attempting :: "string \<Rightarrow> string" where
  "line_attempting mn = ''1. Attempting to import module: '' @ mn"

definition line_imported :: string where
  "line_imported = ''   '' @ check_mark @ '' Module imported successfully!''"

definition line_file_location :: "pyval \<Rightarrow> string" where
  "line_file_location f = ''   '' @ folder_mark @ '' File location: '' @ str_of f"

definition line_looking :: "string \<Rightarrow> string" where
  "line_looking cn = ''2. Looking for class: '' @ cn"

definition line_class_found :: string where
  "line_class_found = ''   '' @ check_mark @ '' Class found!''"

definition line_proper_path :: "pyval \<Rightarrow> string \<Rightarrow> string" where
  "line_proper_path n cn =
     ''   '' @ pointing_mark @ '' Proper import path: '' @ str_of n @ ''.'' @ cn"

definition line_import_error :: "exn \<Rightarrow> string" where
  "line_import_error e = ''   '' @ cross_mark @ '' IMPORT ERROR: '' @ exn_str e"

definition line_import_hint :: string where
  "line_import_hint =
     ''   (This means Python cannot find the file or a dependency is missing)''"

definition line_class_not_found :: "exn \<Rightarrow> string" where
  "line_class_not_found e = ''   '' @ cross_mark @ '' CLASS NOT FOUND: '' @ exn_str e"

definition line_class_hint :: "string \<Rightarrow> string \<Rightarrow> string" where
  "line_class_hint mn cn =
     ''   (The module '' @ [CHR 0x27] @ mn @ [CHR 0x27] @ '' loads, but class ''
       @ [CHR 0x27] @ cn @ [CHR 0x27] @ '' isn'' @ [CHR 0x27] @ ''t in it)''"

text \<open>The last line of the second handler, for a module whose \<open>dir\<close> returns.\<close>

definition line_contents :: "(string \<Rightarrow> string) \<Rightarrow> pymodule \<Rightarrow> string" where
  "line_contents repr m =
     ''   Available contents: ''
       @ repr_list repr (case dir m of Inr names \<Rightarrow> names | Inl e \<Rightarrow> [])"

definition line_runtime_crash :: "exn \<Rightarrow> string" where
  "line_runtime_crash e = ''   '' @ cross_mark @ '' RUNTIME CRASH: '' @ exn_str e"

definition line_crash_hint :: string where
  "line_crash_hint =
     ''   (Your code has a bug/circular import that prevents loading)''"


subsection \<open>Standard output\<close>

text \<open>
  \<open>print(line)\<close> either writes the line or raises: \<open>None\<close> is a line written,
  \<open>Some e\<close> the exception raised, with nothing written. A stream in UTF-8 takes every
  line; a stream in ASCII raises UnicodeEncodeError for a line with a byte beyond 127,
  as the pictographs of the script are.
\<close>

type_synonym stdout = "string \<Rightarrow> exn option"

definition utf8_stdout :: stdout where
  "utf8_stdout line = None"

definition ascii_stdout :: stdout where
  "ascii_stdout line =
     (if list_all (\<lambda>c. of_char c < (128::nat)) line then None
      else Some (Exn UnicodeEncodeError ''ascii codec cannot encode character''))"

text \<open>Printing lines one after the other, up to the first that raises.\<close>

fun prints :: "stdout \<Rightarrow> string list \<Rightarrow> event list \<times> exn option" where
  "prints out [] = ([], None)"
| "prints out (x # xs) =
     (case out x of
        Some e \<Rightarrow> ([], Some e)
      | None \<Rightarrow> (case prints out xs of (es, r) \<Rightarrow> (Print x # es, r)))"

subsection \<open>The script\<close>

text \<open>
  The \<open>try\<close> block: the events up to the statement that raised or to the end, the
  process, the names bound so far and the exception raised, if any. Every \<open>print\<close>,
  the import and every attribute read can raise. The statements after the import are
  \<open>after_import\<close>: they do not touch the process.
\<close>

definition after_import :: "stdout \<Rightarrow> pymodule \<Rightarrow> string \<Rightarrow> event list \<times> exn option" where
  "after_import out m cn =
     (case out line_imported of
        Some e \<Rightarrow> ([], Some e)
      | None \<Rightarrow>
     (let t2 = [Print line_imported]
      in case getattr m ''__file__'' of
           Inl e \<Rightarrow> (t2, Some e)
         | Inr f \<Rightarrow>
     (case out (line_file_location f) of
        Some e \<Rightarrow> (t2, Some e)
      | None \<Rightarrow>
     (case out (line_looking cn) of
        Some e \<Rightarrow> (t2 @ [Print (line_file_location f)], Some e)
      | None \<Rightarrow>
     (let t3 = t2 @ [Print (line_file_location f), Print (line_looking cn), Getattr cn]
      in case getattr m cn of
           Inl e \<Rightarrow> (t3, Some e)
         | Inr cls \<Rightarrow>
     (case out line_class_found of
        Some e \<Rightarrow> (t3, Some e)
      | None \<Rightarrow>
     (let t4 = t3 @ [Print line_class_found]
      in case getattr m ''__name__'' of
           Inl e \<Rightarrow> (t4, Some e)
         | Inr n \<Rightarrow>
     (case out (line_proper_path n cn) of
        Some e \<Rightarrow> (t4, Some e)
      | None \<Rightarrow> (t4 @ [Print (line_proper_path n cn)], None)))))))))"

definition try_block ::
  "stdout \<Rightarrow> 'x runtime \<Rightarrow> string \<Rightarrow> 'x process
     \<Rightarrow> event list \<times> 'x process \<times> locals \<times> exn option" where
  "try_block out rt TARGET s =
     (case unpack2 (rsplit1 (CHR ''.'') TARGET) of
        Inl e \<Rightarrow> ([], s, \<lparr>var_module_name = None, var_class_name = None, var_mod = None\<rparr>, Some e)
      | Inr (mn, cn) \<Rightarrow>
          (let l = \<lparr>var_module_name = Some mn, var_class_name = Some cn, var_mod = None\<rparr>
           in case out (line_attempting mn) of
                Some e \<Rightarrow> ([], s, l, Some e)
              | None \<Rightarrow>
                  (let t1 = [Print (line_attempting mn), Import mn]
                   in case import_module rt mn s of
                        (Inl e, s') \<Rightarrow> (t1, s', l, Some e)
                      | (Inr m, s') \<Rightarrow>
                          (case after_import out m cn of
                             (t, r) \<Rightarrow> (t1 @ t, s', l\<lparr>var_mod := Some m\<rparr>, r)))))"

text \<open>
  The \<open>except\<close> clauses, tried in the order of the source: the lines the matching
  clause prints, and the exception that leaves the statement, if any. An exception that
  matches no clause leaves it as it is. Inside a clause a \<open>print\<close> can raise, a name
  that is not bound raises NameError, and \<open>dir(mod)\<close> can raise; nothing catches
  these.
\<close>

definition except_clauses ::
  "stdout \<Rightarrow> (string \<Rightarrow> string) \<Rightarrow> locals \<Rightarrow> exn \<Rightarrow> event list \<times> exn option" where
  "except_clauses out repr l e =
     (if isinstance e ImportError then
        prints out [line_import_error e, line_import_hint]
      else if isinstance e AttributeError then
        (case out (line_class_not_found e) of
           Some e' \<Rightarrow> ([], Some e')
         | None \<Rightarrow>
        (let t1 = [Print (line_class_not_found e)]
         in case var_module_name l of
              None \<Rightarrow> (t1, Some (name_error ''module_name''))
            | Some mn \<Rightarrow>
        (case var_class_name l of
           None \<Rightarrow> (t1, Some (name_error ''class_name''))
         | Some cn \<Rightarrow>
        (case out (line_class_hint mn cn) of
           Some e' \<Rightarrow> (t1, Some e')
         | None \<Rightarrow>
        (let t2 = t1 @ [Print (line_class_hint mn cn)]
         in case var_mod l of
              None \<Rightarrow> (t2, Some (name_error ''mod''))
            | Some m \<Rightarrow>
        (case dir m of
           Inl e' \<Rightarrow> (t2, Some e')
         | Inr names \<Rightarrow>
        (case out (line_contents repr m) of
           Some e' \<Rightarrow> (t2, Some e')
         | None \<Rightarrow> (t2 @ [Print (line_contents repr m)], None))))))))
      else if isinstance e Exception then
        prints out [line_runtime_crash e, line_crash_hint]
      else ([], Some e))"

text \<open>
  The statements from the header on, on a given standard output: the three header
  lines, outside the \<open>try\<close> statement, then the \<open>try\<close> statement.
\<close>

definition script_on :: "stdout \<Rightarrow> 'x runtime \<Rightarrow> string \<Rightarrow> 'x process \<Rightarrow> 'x run" where
  "script_on out rt TARGET s =
     (case prints out (header (repr_str rt) TARGET s) of
        (t0, Some e) \<Rightarrow> \<lparr>events = t0, final = s, uncaught = Some e\<rparr>
      | (t0, None) \<Rightarrow>
          (case try_block out rt TARGET s of
             (t, s', l, None) \<Rightarrow> \<lparr>events = t0 @ t, final = s', uncaught = None\<rparr>
           | (t, s', l, Some e) \<Rightarrow>
               (case except_clauses out (repr_str rt) l e of
                  (h, r) \<Rightarrow> \<lparr>events = t0 @ t @ h, final = s', uncaught = r\<rparr>)))"

text \<open>The same on a standard output in UTF-8, which takes every line.\<close>

definition script :: "'x runtime \<Rightarrow> string \<Rightarrow> 'x process \<Rightarrow> 'x run" where
  "script rt TARGET s = script_on utf8_stdout rt TARGET s"


text \<open>Standard output of a run, and its calls into the interpreter.\<close>

fun printed :: "event list \<Rightarrow> string list" where
  "printed [] = []"
| "printed (Print x # es) = x # printed es"
| "printed (e # es) = printed es"

fun calls :: "event list \<Rightarrow> event list" where
  "calls [] = []"
| "calls (Print x # es) = calls es"
| "calls (e # es) = e # calls es"

subsection \<open>A concrete interpreter\<close>

text \<open>
  A small interpreter to run the script on. Its \<open>rest\<close> is the list of the names of the
  loaded modules; \<open>sys\<close> is loaded from the start, \<open>importlib\<close> is not. Four modules
  load: \<open>importlib\<close>, the module of the source's \<open>TARGET\<close>, \<open>sys\<close>, which is built
  into the interpreter and so has no \<open>__file__\<close>, and \<open>pkg.custom\<close>, whose own
  \<open>__dir__\<close> raises. Two modules raise while their own code runs: \<open>pkg.cyclic\<close>
  imports a name from a module that imports it back, \<open>pkg.typo\<close> reads an attribute
  that is not there. Any other name is not found.
\<close>

definition quote_repr :: "string \<Rightarrow> string" where
  "quote_repr x = [CHR 0x27] @ x @ [CHR 0x27]"

definition demo_process :: "string list process" where
  "demo_process =
     \<lparr>sys_executable = PyStr ''/usr/bin/python3'',
      sys_path = [[], ''/usr/lib/python3''],
      rest = [''sys'']\<rparr>"

definition plain_module :: "(string \<times> pyval) list \<Rightarrow> pymodule" where
  "plain_module d =
     \<lparr>mod_dict = d,
      type_data = [(''__class__'', PyObj ''<class module>''), (''__dict__'', PyObj ''{...}'')],
      type_other = [(''__repr__'', PyObj ''<method-wrapper __repr__>''),
                    (''__dir__'', PyObj ''<built-in method __dir__>'')],
      getattr_hook = None,
      dir_hook = None\<rparr>"

definition facade_module :: pymodule where
  "facade_module =
     plain_module
        [(''__name__'', PyStr ''aethergraph.services.memory.facade.core''),
         (''__file__'', PyStr ''/site/aethergraph/services/memory/facade/core.py''),
         (''MemoryFacade'', PyObj ''<class MemoryFacade>'')]"

definition sys_module :: pymodule where
  "sys_module = plain_module [(''__name__'', PyStr ''sys''), (''path'', PyObj ''[]'')]"

definition importlib_module :: pymodule where
  "importlib_module =
     plain_module
        [(''__name__'', PyStr ''importlib''),
         (''__file__'', PyStr ''/usr/lib/python3/importlib/__init__.py''),
         (''import_module'', PyObj ''<function import_module>'')]"

definition custom_module :: pymodule where
  "custom_module =
     (plain_module
        [(''__name__'', PyStr ''pkg.custom''),
         (''__file__'', PyStr ''/site/pkg/custom.py'')])
     \<lparr>dir_hook := Some (Inl (Exn TypeError ''__dir__() takes 1 positional argument''))\<rparr>"

definition demo_import ::
  "string \<Rightarrow> string list process \<Rightarrow> (exn + pymodule) \<times> string list process" where
  "demo_import n s =
     (if n = ''aethergraph.services.memory.facade.core''
        then (Inr facade_module, s\<lparr>rest := rest s @ [n]\<rparr>)
      else if n = ''sys'' then (Inr sys_module, s)
      else if n = ''importlib''
        then (Inr importlib_module, s\<lparr>rest := rest s @ [n]\<rparr>)
      else if n = ''pkg.custom'' then (Inr custom_module, s)
      else if n = ''pkg.cyclic''
        then (Inl (Exn ImportError
                ''cannot import name X (most likely due to a circular import)''), s)
      else if n = ''pkg.typo''
        then (Inl (Exn AttributeError
                ''partially initialized module has no attribute X''), s)
      else (Inl (Exn ModuleNotFoundError (''No module named '' @ quote_repr n)), s))"

definition demo_runtime :: "string list runtime" where
  "demo_runtime = \<lparr>import_module = demo_import, repr_str = quote_repr\<rparr>"


section \<open>Properties\<close>

subsection \<open>Splitting and formatting\<close>

lemma rsplit1_split:
  assumes "sep \<in> set s"
  shows "\<exists>m c. rsplit1 sep s = [m, c] \<and> s = m @ sep # c \<and> sep \<notin> set c"
proof -
  let ?P = "\<lambda>c. c \<noteq> sep"
  let ?tw = "takeWhile ?P (rev s)"
  let ?dw = "dropWhile ?P (rev s)"
  from assms have ne: "?dw \<noteq> []" by (simp add: dropWhile_eq_Nil_conv)
  have "hd ?dw = sep" using hd_dropWhile [OF ne] by simp
  with ne have dw: "?dw = sep # tl ?dw" by (cases ?dw) simp_all
  have "rev s = ?tw @ ?dw" by simp
  then have "rev s = ?tw @ sep # tl ?dw" using dw by simp
  then have "rev (rev s) = rev (?tw @ sep # tl ?dw)" by (rule arg_cong)
  then have s: "s = rev (tl ?dw) @ sep # rev ?tw" by simp
  have notin: "sep \<notin> set (rev ?tw)" using set_takeWhileD [of sep ?P "rev s"] by auto
  from assms have "rsplit1 sep s = [rev (tl ?dw), rev ?tw]" by (simp add: rsplit1_def)
  with s notin show ?thesis by blast
qed

lemma rsplit1_append:
  assumes "sep \<notin> set c"
  shows "rsplit1 sep (m @ sep # c) = [m, c]"
proof -
  have tw: "takeWhile (\<lambda>x. x \<noteq> sep) (rev c @ sep # rev m) = rev c"
    using assms by (subst takeWhile_append2) auto
  have dw: "dropWhile (\<lambda>x. x \<noteq> sep) (rev c @ sep # rev m) = sep # rev m"
    using assms by (subst dropWhile_append2) auto
  show ?thesis by (simp add: rsplit1_def tw dw)
qed

lemma rsplit1_none: "sep \<notin> set s \<Longrightarrow> rsplit1 sep s = [s]"
  by (simp add: rsplit1_def)

lemma printed_prints: "printed (map Print xs @ es) = xs @ printed es"
  by (induction xs) simp_all

lemma calls_append: "calls (xs @ ys) = calls xs @ calls ys"
  by (induction xs rule: calls.induct) simp_all

lemma calls_prints: "calls (map Print xs) = []"
  by (induction xs) simp_all


subsection \<open>Modules and exceptions\<close>

lemma dir_plain:
  "dir_hook m = None \<Longrightarrow> dir m = Inr (sort (remdups (map fst (mod_dict m))))"
  by (simp add: dir_def)

lemma dir_sorted: "dir m = Inr names \<Longrightarrow> sorted names"
  by (auto simp: dir_def split: option.splits sum.splits)

lemma no_attribute_class:
  "isinstance (no_attribute m name) AttributeError"
  "\<not> isinstance (no_attribute m name) ImportError"
  by (simp_all add: no_attribute_def isinstance_def issubclass_def)


text \<open>A name the type answers is found though the dictionary does not have it.\<close>

lemma type_attribute_found: "getattr sys_module ''__class__'' = Inr (PyObj ''<class module>'')"
  by (simp add: getattr_def sys_module_def plain_module_def)

lemma demo_repr: "repr_str demo_runtime = quote_repr"
  by (simp add: demo_runtime_def)

subsection \<open>Printing\<close>

lemma prints_ok:
  "\<forall>x\<in>set xs. out x = None \<Longrightarrow> prints out xs = (map Print xs, None)"
  by (induction xs) simp_all

lemma prints_utf8: "prints utf8_stdout xs = (map Print xs, None)"
  by (rule prints_ok) (simp add: utf8_stdout_def)


lemma prints_prefix: "\<exists>k. fst (prints out xs) = map Print (take k xs)"
proof (induction xs)
  case Nil
  show ?case by simp
next
  case (Cons x xs)
  then obtain k where k: "fst (prints out xs) = map Print (take k xs)" by blast
  show ?case
  proof (cases "out x")
    case None
    with k have "fst (prints out (x # xs)) = map Print (take (Suc k) (x # xs))"
      by (simp add: case_prod_beta)
    then show ?thesis by blast
  next
    case (Some e)
    then have "fst (prints out (x # xs)) = map Print (take 0 (x # xs))" by simp
    then show ?thesis by blast
  qed
qed

text \<open>A stream in ASCII raises on every line with a pictograph.\<close>

lemma ascii_rejects:
  "ascii_stdout line_imported =
     Some (Exn UnicodeEncodeError ''ascii codec cannot encode character'')"
  "ascii_stdout (line_import_error e) =
     Some (Exn UnicodeEncodeError ''ascii codec cannot encode character'')"
  "ascii_stdout (line_class_not_found e) =
     Some (Exn UnicodeEncodeError ''ascii codec cannot encode character'')"
  "ascii_stdout (line_runtime_crash e) =
     Some (Exn UnicodeEncodeError ''ascii codec cannot encode character'')"
  by (simp_all add: ascii_stdout_def line_imported_def line_import_error_def
      line_class_not_found_def line_runtime_crash_def check_mark_def cross_mark_def)


subsection \<open>The script on a standard output that takes every line\<close>

lemma try_block_utf8:
  "try_block utf8_stdout rt TARGET s =
     (case unpack2 (rsplit1 (CHR ''.'') TARGET) of
        Inl e \<Rightarrow> ([], s, \<lparr>var_module_name = None, var_class_name = None, var_mod = None\<rparr>, Some e)
      | Inr (mn, cn) \<Rightarrow>
          (let l = \<lparr>var_module_name = Some mn, var_class_name = Some cn, var_mod = None\<rparr>;
               t1 = [Print (line_attempting mn), Import mn]
           in case import_module rt mn s of
                (Inl e, s') \<Rightarrow> (t1, s', l, Some e)
              | (Inr m, s') \<Rightarrow>
                  (let l' = l\<lparr>var_mod := Some m\<rparr>;
                       t2 = t1 @ [Print line_imported]
                   in case getattr m ''__file__'' of
                        Inl e \<Rightarrow> (t2, s', l', Some e)
                      | Inr f \<Rightarrow>
                          (let t3 = t2 @ [Print (line_file_location f),
                                          Print (line_looking cn), Getattr cn]
                           in case getattr m cn of
                                Inl e \<Rightarrow> (t3, s', l', Some e)
                              | Inr cls \<Rightarrow>
                                  (let t4 = t3 @ [Print line_class_found]
                                   in case getattr m ''__name__'' of
                                        Inl e \<Rightarrow> (t4, s', l', Some e)
                                      | Inr n \<Rightarrow>
                                          (t4 @ [Print (line_proper_path n cn)],
                                           s', l', None))))))"
  by (simp add: try_block_def after_import_def utf8_stdout_def Let_def
      split: sum.splits prod.splits)

lemma except_clauses_utf8:
  "except_clauses utf8_stdout repr l e =
     (if isinstance e ImportError then
        ([Print (line_import_error e), Print line_import_hint], None)
      else if isinstance e AttributeError then
        (let t1 = [Print (line_class_not_found e)]
         in case var_module_name l of
              None \<Rightarrow> (t1, Some (name_error ''module_name''))
            | Some mn \<Rightarrow>
                (case var_class_name l of
                   None \<Rightarrow> (t1, Some (name_error ''class_name''))
                 | Some cn \<Rightarrow>
                     (let t2 = t1 @ [Print (line_class_hint mn cn)]
                      in case var_mod l of
                           None \<Rightarrow> (t2, Some (name_error ''mod''))
                         | Some m \<Rightarrow>
                             (case dir m of
                                Inl e' \<Rightarrow> (t2, Some e')
                              | Inr names \<Rightarrow> (t2 @ [Print (line_contents repr m)], None)))))
      else if isinstance e Exception then
        ([Print (line_runtime_crash e), Print line_crash_hint], None)
      else ([], Some e))"
  by (simp add: except_clauses_def prints_utf8 Let_def utf8_stdout_def
      split: option.splits sum.splits)

lemma script_utf8:
  "script rt TARGET s =
     (let t0 = map Print (header (repr_str rt) TARGET s)
      in case try_block utf8_stdout rt TARGET s of
           (t, s', l, None) \<Rightarrow> \<lparr>events = t0 @ t, final = s', uncaught = None\<rparr>
         | (t, s', l, Some e) \<Rightarrow>
             (case except_clauses utf8_stdout (repr_str rt) l e of
                (h, r) \<Rightarrow> \<lparr>events = t0 @ t @ h, final = s', uncaught = r\<rparr>))"
  by (simp add: script_def script_on_def prints_utf8 Let_def)




lemma script_import_raises:
  assumes "rsplit1 (CHR ''.'') TARGET = [mn, cn]"
      and "import_module rt mn s = (Inl e, s')"
  shows "script rt TARGET s =
           (case except_clauses utf8_stdout (repr_str rt)
                   \<lparr>var_module_name = Some mn, var_class_name = Some cn, var_mod = None\<rparr> e of
              (h, r) \<Rightarrow>
                \<lparr>events = map Print (header (repr_str rt) TARGET s)
                            @ [Print (line_attempting mn), Import mn] @ h,
                 final = s', uncaught = r\<rparr>)"
  using assms by (simp add: script_utf8 try_block_utf8 split: prod.splits)

text \<open>
  The path with no exception: the module loads, it has a \<open>__file__\<close> and a
  \<open>__name__\<close>, and the name looked up is in it.
\<close>

lemma script_success:
  assumes "rsplit1 (CHR ''.'') TARGET = [mn, cn]"
      and "import_module rt mn s = (Inr m, s')"
      and "getattr m ''__file__'' = Inr f"
      and "getattr m cn = Inr cls"
      and "getattr m ''__name__'' = Inr n"
  shows "printed (events (script rt TARGET s)) =
           header (repr_str rt) TARGET s
             @ [line_attempting mn, line_imported, line_file_location f,
                line_looking cn, line_class_found, line_proper_path n cn]
         \<and> uncaught (script rt TARGET s) = None"
  using assms by (simp add: script_utf8 try_block_utf8 printed_prints)

subsection \<open>The success path\<close>

text \<open>
  C1. The claim: whenever the module of the dotted path imports and the final segment is
  an attribute of it, the script reports success, with the file location and the import
  path. The script reads \<open>mod.__file__\<close> inside the \<open>try\<close> block before it looks the
  class up, and a module built into the interpreter has no \<open>__file__\<close>. On
  \<open>sys.path\<close> the module \<open>sys\<close> imports and \<open>path\<close> is an attribute of it, yet the
  run prints the class-not-found report, saying that class \<open>path\<close> is not in the
  module, and never the success lines.
\<close>

theorem builtin_module_reported_missing:
  "rsplit1 (CHR ''.'') ''sys.path'' = [''sys'', ''path'']
   \<and> import_module demo_runtime ''sys'' demo_process = (Inr sys_module, demo_process)
   \<and> getattr sys_module ''path'' = Inr (PyObj ''[]'')
   \<and> printed (events (script demo_runtime ''sys.path'' demo_process)) =
         header quote_repr ''sys.path'' demo_process
           @ [line_attempting ''sys'', line_imported,
              line_class_not_found (no_attribute sys_module ''__file__''),
              line_class_hint ''sys'' ''path'',
              line_contents quote_repr sys_module]"
proof -
  have split: "rsplit1 (CHR ''.'') ''sys.path'' = [''sys'', ''path'']"
    by (simp add: rsplit1_def)
  have imp: "import_module demo_runtime ''sys'' demo_process = (Inr sys_module, demo_process)"
    by (simp add: demo_runtime_def demo_import_def)
  have cls: "getattr sys_module ''path'' = Inr (PyObj ''[]'')"
    by (simp add: getattr_def sys_module_def plain_module_def)
  have nofile: "getattr sys_module ''__file__'' = Inl (no_attribute sys_module ''__file__'')"
    by (simp add: getattr_def sys_module_def plain_module_def)
  have listing: "dir sys_module = Inr [''__name__'', ''path'']"
    by (simp add: dir_def sys_module_def plain_module_def)
  have "printed (events (script demo_runtime ''sys.path'' demo_process)) =
         header quote_repr ''sys.path'' demo_process
           @ [line_attempting ''sys'', line_imported,
              line_class_not_found (no_attribute sys_module ''__file__''),
              line_class_hint ''sys'' ''path'',
              line_contents quote_repr sys_module]"
    by (simp add: script_utf8 try_block_utf8 except_clauses_utf8 split imp nofile listing
        no_attribute_class printed_prints demo_repr)
  with split imp cls show ?thesis by simp
qed

subsection \<open>Exceptions raised while the module loads\<close>

text \<open>
  C2. The claim: an exception raised while the target module loads, as by a circular
  import, is reported as a runtime defect and never as a missing module. The third
  handler of the script says the same of itself: its hint names the circular import. But
  a circular import raises ImportError (or AttributeError), and the first \<open>except\<close>
  clause takes every ImportError. The module \<open>pkg.cyclic\<close> exists and raises
  ImportError while it loads, for the circular import: the run prints the import-error
  report, with the hint that the file or a dependency is missing, and not the
  runtime-crash one.
\<close>

theorem circular_import_reported_as_import_error:
  "rsplit1 (CHR ''.'') ''pkg.cyclic.C'' = [''pkg.cyclic'', ''C'']
   \<and> import_module demo_runtime ''pkg.cyclic'' demo_process =
        (Inl (Exn ImportError ''cannot import name X (most likely due to a circular import)''),
         demo_process)
   \<and> printed (events (script demo_runtime ''pkg.cyclic.C'' demo_process)) =
        header quote_repr ''pkg.cyclic.C'' demo_process
          @ [''1. Attempting to import module: pkg.cyclic'',
             ''   '' @ [CHR 0xE2, CHR 0x9D, CHR 0x8C]
               @ '' IMPORT ERROR: cannot import name X (most likely due to a circular import)'',
             ''   (This means Python cannot find the file or a dependency is missing)'']
   \<and> ''   (Your code has a bug/circular import that prevents loading)''
        \<notin> set (printed (events (script demo_runtime ''pkg.cyclic.C'' demo_process)))"
proof -
  let ?e = "Exn ImportError ''cannot import name X (most likely due to a circular import)''"
  let ?out = "header quote_repr ''pkg.cyclic.C'' demo_process
          @ [''1. Attempting to import module: pkg.cyclic'',
             ''   '' @ [CHR 0xE2, CHR 0x9D, CHR 0x8C]
               @ '' IMPORT ERROR: cannot import name X (most likely due to a circular import)'',
             ''   (This means Python cannot find the file or a dependency is missing)'']"
  have split: "rsplit1 (CHR ''.'') ''pkg.cyclic.C'' = [''pkg.cyclic'', ''C'']"
    by (simp add: rsplit1_def)
  have imp: "import_module demo_runtime ''pkg.cyclic'' demo_process = (Inl ?e, demo_process)"
    by (simp add: demo_runtime_def demo_import_def)
  have out: "printed (events (script demo_runtime ''pkg.cyclic.C'' demo_process)) = ?out"
    by (simp add: script_import_raises [OF split imp] except_clauses_utf8 isinstance_def
        issubclass_def printed_prints demo_repr line_attempting_def line_import_error_def
        line_import_hint_def cross_mark_def)
  have "''   (Your code has a bug/circular import that prevents loading)'' \<notin> set ?out"
    by (simp add: header_def)
  with split imp out show ?thesis by simp
qed

text \<open>
  C3. The claim: each failure is caught and described, and no exception leaves the
  handlers. The second \<open>except\<close> clause reads \<open>mod\<close>, which is bound only after the
  import has returned. The module \<open>pkg.typo\<close> raises AttributeError while it loads:
  the clause prints two lines and then raises NameError for \<open>mod\<close>, which nothing
  catches.
\<close>

theorem handler_raises_name_error:
  "rsplit1 (CHR ''.'') ''pkg.typo.C'' = [''pkg.typo'', ''C'']
   \<and> import_module demo_runtime ''pkg.typo'' demo_process =
        (Inl (Exn AttributeError ''partially initialized module has no attribute X''),
         demo_process)
   \<and> printed (events (script demo_runtime ''pkg.typo.C'' demo_process)) =
        header quote_repr ''pkg.typo.C'' demo_process
          @ [line_attempting ''pkg.typo'',
             line_class_not_found
               (Exn AttributeError ''partially initialized module has no attribute X''),
             line_class_hint ''pkg.typo'' ''C'']
   \<and> uncaught (script demo_runtime ''pkg.typo.C'' demo_process) = Some (name_error ''mod'')"
proof -
  let ?e = "Exn AttributeError ''partially initialized module has no attribute X''"
  have split: "rsplit1 (CHR ''.'') ''pkg.typo.C'' = [''pkg.typo'', ''C'']"
    by (simp add: rsplit1_def)
  have imp: "import_module demo_runtime ''pkg.typo'' demo_process = (Inl ?e, demo_process)"
    by (simp add: demo_runtime_def demo_import_def)
  have out: "printed (events (script demo_runtime ''pkg.typo.C'' demo_process)) =
        header quote_repr ''pkg.typo.C'' demo_process
          @ [line_attempting ''pkg.typo'', line_class_not_found ?e,
             line_class_hint ''pkg.typo'' ''C'']"
    by (simp add: script_import_raises [OF split imp] except_clauses_utf8 isinstance_def
        issubclass_def printed_prints demo_repr)
  have "uncaught (script demo_runtime ''pkg.typo.C'' demo_process) = Some (name_error ''mod'')"
    by (simp add: script_import_raises [OF split imp] except_clauses_utf8 isinstance_def
        issubclass_def)
  with split imp out show ?thesis by simp
qed

subsection \<open>The module is not found\<close>

text \<open>
  C4, as the claim states it: whenever the import raises ImportError the script reports
  the failure and no exception leaves it. The report starts with a pictograph. On a
  standard output in ASCII the first \<open>print\<close> of the handler raises
  UnicodeEncodeError inside the handler: for \<open>nothere.C\<close> the run prints the header
  and the line of the import attempt, no report, and the exception leaves the script.
\<close>

theorem import_error_ascii_counterexample:
  "rsplit1 (CHR ''.'') ''nothere.C'' = [''nothere'', ''C'']
   \<and> import_module demo_runtime ''nothere'' demo_process =
        (Inl (Exn ModuleNotFoundError (''No module named '' @ quote_repr ''nothere'')),
         demo_process)
   \<and> isinstance (Exn ModuleNotFoundError (''No module named '' @ quote_repr ''nothere''))
        ImportError
   \<and> printed (events (script_on ascii_stdout demo_runtime ''nothere.C'' demo_process)) =
        header quote_repr ''nothere.C'' demo_process
          @ [''1. Attempting to import module: nothere'']
   \<and> uncaught (script_on ascii_stdout demo_runtime ''nothere.C'' demo_process) =
        Some (Exn UnicodeEncodeError ''ascii codec cannot encode character'')"
proof -
  let ?e = "Exn ModuleNotFoundError (''No module named '' @ quote_repr ''nothere'')"
  have split: "rsplit1 (CHR ''.'') ''nothere.C'' = [''nothere'', ''C'']"
    by (simp add: rsplit1_def)
  have imp: "import_module demo_runtime ''nothere'' demo_process = (Inl ?e, demo_process)"
    by (simp add: demo_runtime_def demo_import_def)
  have c: "isinstance ?e ImportError" by (simp add: isinstance_def issubclass_def)
  have hd: "prints ascii_stdout (header quote_repr ''nothere.C'' demo_process) =
              (map Print (header quote_repr ''nothere.C'' demo_process), None)"
    by (rule prints_ok)
      (simp add: header_def demo_process_def repr_list_def quote_repr_def ascii_stdout_def)
  have a: "ascii_stdout (line_attempting ''nothere'') = None"
    by (simp add: line_attempting_def ascii_stdout_def)
  have run: "script_on ascii_stdout demo_runtime ''nothere.C'' demo_process =
               \<lparr>events = map Print (header quote_repr ''nothere.C'' demo_process)
                           @ [Print (line_attempting ''nothere''), Import ''nothere''],
                final = demo_process,
                uncaught = Some (Exn UnicodeEncodeError ''ascii codec cannot encode character'')\<rparr>"
    using c by (simp add: script_on_def try_block_def after_import_def except_clauses_def split imp hd a
        ascii_rejects demo_repr)
  from split imp c show ?thesis
    by (simp add: run printed_prints line_attempting_def)
qed

text \<open>
  C4, amended: when the import of the module named by the path raises ImportError (or a
  subclass, as ModuleNotFoundError) and standard output takes the lines of the run, the
  script prints, after the header and the line of the import attempt, the import-error
  report, and no exception leaves it.
\<close>

theorem import_error_reported:
  assumes "rsplit1 (CHR ''.'') TARGET = [mn, cn]"
      and "import_module rt mn s = (Inl e, s')"
      and "isinstance e ImportError"
      and "\<forall>x \<in> set (header (repr_str rt) TARGET s
               @ [''1. Attempting to import module: '' @ mn,
                  ''   '' @ [CHR 0xE2, CHR 0x9D, CHR 0x8C] @ '' IMPORT ERROR: '' @ exn_str e,
                  ''   (This means Python cannot find the file or a dependency is missing)'']).
             out x = None"
  shows "printed (events (script_on out rt TARGET s)) =
           header (repr_str rt) TARGET s
             @ [''1. Attempting to import module: '' @ mn,
                ''   '' @ [CHR 0xE2, CHR 0x9D, CHR 0x8C] @ '' IMPORT ERROR: '' @ exn_str e,
                ''   (This means Python cannot find the file or a dependency is missing)'']
         \<and> uncaught (script_on out rt TARGET s) = None"
proof -
  from assms(4) have hd: "prints out (header (repr_str rt) TARGET s) =
      (map Print (header (repr_str rt) TARGET s), None)"
    by (intro prints_ok) simp
  from assms(4) have a: "out (line_attempting mn) = None"
    by (simp add: line_attempting_def)
  from assms(4) have b: "out (line_import_error e) = None"
    by (simp add: line_import_error_def cross_mark_def)
  from assms(4) have c: "out line_import_hint = None"
    by (simp add: line_import_hint_def)
  have "script_on out rt TARGET s =
          \<lparr>events = map Print (header (repr_str rt) TARGET s)
                      @ [Print (line_attempting mn), Import mn,
                         Print (line_import_error e), Print line_import_hint],
           final = s', uncaught = None\<rparr>"
    using assms(1-3) by (simp add: script_on_def try_block_def after_import_def except_clauses_def hd a b c)
  then show ?thesis
    by (simp add: printed_prints line_attempting_def line_import_error_def
        line_import_hint_def cross_mark_def)
qed

text \<open>C4, the amended claim on \<open>nothere.C\<close> and a standard output in UTF-8.\<close>

theorem import_error_reported_witness:
  "rsplit1 (CHR ''.'') ''nothere.C'' = [''nothere'', ''C'']
   \<and> import_module demo_runtime ''nothere'' demo_process =
        (Inl (Exn ModuleNotFoundError (''No module named '' @ quote_repr ''nothere'')),
         demo_process)
   \<and> isinstance (Exn ModuleNotFoundError (''No module named '' @ quote_repr ''nothere''))
        ImportError
   \<and> printed (events (script_on utf8_stdout demo_runtime ''nothere.C'' demo_process)) =
        header quote_repr ''nothere.C'' demo_process
          @ [''1. Attempting to import module: nothere'',
             ''   '' @ [CHR 0xE2, CHR 0x9D, CHR 0x8C] @ '' IMPORT ERROR: No module named ''
               @ quote_repr ''nothere'',
             ''   (This means Python cannot find the file or a dependency is missing)'']
   \<and> uncaught (script_on utf8_stdout demo_runtime ''nothere.C'' demo_process) = None"
proof -
  let ?e = "Exn ModuleNotFoundError (''No module named '' @ quote_repr ''nothere'')"
  have split: "rsplit1 (CHR ''.'') ''nothere.C'' = [''nothere'', ''C'']"
    by (simp add: rsplit1_def)
  have imp: "import_module demo_runtime ''nothere'' demo_process = (Inl ?e, demo_process)"
    by (simp add: demo_runtime_def demo_import_def)
  have c: "isinstance ?e ImportError" by (simp add: isinstance_def issubclass_def)
  have taken: "\<forall>x \<in> set (header (repr_str demo_runtime) ''nothere.C'' demo_process
               @ [''1. Attempting to import module: '' @ ''nothere'',
                  ''   '' @ [CHR 0xE2, CHR 0x9D, CHR 0x8C] @ '' IMPORT ERROR: '' @ exn_str ?e,
                  ''   (This means Python cannot find the file or a dependency is missing)'']).
             utf8_stdout x = None"
    by (simp add: utf8_stdout_def)
  from import_error_reported [OF split imp c taken] split imp c
  show ?thesis by (simp add: demo_repr)
qed

subsection \<open>The attribute is not found\<close>




subsection \<open>The split\<close>

text \<open>
  C6. A target with at least one dot splits in two: the module name is everything before
  the last dot, the class name everything after it, and the class name has no dot. The
  unpacking succeeds.
\<close>

theorem rsplit_at_last_dot:
  assumes "CHR ''.'' \<in> set TARGET"
  shows "\<exists>mn cn. rsplit1 (CHR ''.'') TARGET = [mn, cn]
           \<and> unpack2 (rsplit1 (CHR ''.'') TARGET) = Inr (mn, cn)
           \<and> TARGET = mn @ ''.'' @ cn
           \<and> CHR ''.'' \<notin> set cn"
proof -
  from rsplit1_split [OF assms] obtain m c
    where "rsplit1 (CHR ''.'') TARGET = [m, c]" "TARGET = m @ CHR ''.'' # c"
      "CHR ''.'' \<notin> set c"
    by blast
  then show ?thesis by simp
qed

text \<open>C6 on the \<open>TARGET\<close> of the source.\<close>

theorem rsplit_at_last_dot_witness:
  "CHR ''.'' \<in> set ''aethergraph.services.memory.facade.core.MemoryFacade''
   \<and> rsplit1 (CHR ''.'') ''aethergraph.services.memory.facade.core.MemoryFacade'' =
        [''aethergraph.services.memory.facade.core'', ''MemoryFacade'']
   \<and> (\<exists>mn cn.
         rsplit1 (CHR ''.'') ''aethergraph.services.memory.facade.core.MemoryFacade'' = [mn, cn]
         \<and> unpack2 (rsplit1 (CHR ''.'') ''aethergraph.services.memory.facade.core.MemoryFacade'')
             = Inr (mn, cn)
         \<and> ''aethergraph.services.memory.facade.core.MemoryFacade'' = mn @ ''.'' @ cn
         \<and> CHR ''.'' \<notin> set cn)"
proof -
  have dot: "CHR ''.'' \<in> set ''aethergraph.services.memory.facade.core.MemoryFacade''"
    by simp
  have split: "rsplit1 (CHR ''.'') ''aethergraph.services.memory.facade.core.MemoryFacade'' =
        [''aethergraph.services.memory.facade.core'', ''MemoryFacade'']"
    by (simp add: rsplit1_def)
  from rsplit_at_last_dot [OF dot] dot split show ?thesis by blast
qed

subsection \<open>Order of the calls\<close>


subsection \<open>A target with no dot\<close>

text \<open>
  C9, as the claim states it: a target with no dot is reported as a runtime crash and no
  exception leaves the script. On a standard output in ASCII the first \<open>print\<close> of
  the third handler raises UnicodeEncodeError inside the handler: the run prints the
  header only, and the exception leaves the script.
\<close>

theorem dotless_ascii_counterexample:
  "CHR ''.'' \<notin> set ''MemoryFacade''
   \<and> printed (events (script_on ascii_stdout demo_runtime ''MemoryFacade'' demo_process)) =
       header quote_repr ''MemoryFacade'' demo_process
   \<and> uncaught (script_on ascii_stdout demo_runtime ''MemoryFacade'' demo_process) =
       Some (Exn UnicodeEncodeError ''ascii codec cannot encode character'')"
proof -
  have hd: "prints ascii_stdout (header quote_repr ''MemoryFacade'' demo_process) =
              (map Print (header quote_repr ''MemoryFacade'' demo_process), None)"
    by (rule prints_ok)
      (simp add: header_def demo_process_def repr_list_def quote_repr_def ascii_stdout_def)
  have split: "rsplit1 (CHR ''.'') ''MemoryFacade'' = [''MemoryFacade'']"
    by (simp add: rsplit1_def)
  have run: "script_on ascii_stdout demo_runtime ''MemoryFacade'' demo_process =
               \<lparr>events = map Print (header quote_repr ''MemoryFacade'' demo_process),
                final = demo_process,
                uncaught = Some (Exn UnicodeEncodeError ''ascii codec cannot encode character'')\<rparr>"
    by (simp add: script_on_def try_block_def after_import_def except_clauses_def split hd ascii_rejects
        demo_repr isinstance_def issubclass_def)
  show ?thesis using printed_prints [of _ "[]"] by (simp add: run)
qed

text \<open>
  C9, amended: for a target with no dot, on a standard output that takes the lines of the
  run, the unpacking raises ValueError inside the \<open>try\<close> block and the third
  \<open>except\<close> clause takes it: the run prints the header and the runtime-crash report,
  the two lines a module that raises while it loads gets, makes no call, and no exception
  leaves it.
\<close>

theorem dotless_target_reported_as_crash:
  assumes "CHR ''.'' \<notin> set TARGET"
      and "\<forall>x \<in> set (header (repr_str rt) TARGET s
               @ [''   '' @ [CHR 0xE2, CHR 0x9D, CHR 0x8C]
                    @ '' RUNTIME CRASH: not enough values to unpack (expected 2, got 1)'',
                  ''   (Your code has a bug/circular import that prevents loading)'']).
             out x = None"
  shows "printed (events (script_on out rt TARGET s)) =
           header (repr_str rt) TARGET s
             @ [''   '' @ [CHR 0xE2, CHR 0x9D, CHR 0x8C]
                  @ '' RUNTIME CRASH: not enough values to unpack (expected 2, got 1)'',
                ''   (Your code has a bug/circular import that prevents loading)'']
         \<and> calls (events (script_on out rt TARGET s)) = []
         \<and> uncaught (script_on out rt TARGET s) = None"
proof -
  let ?e = "Exn ValueError ''not enough values to unpack (expected 2, got 1)''"
  from assms(2) have hd: "prints out (header (repr_str rt) TARGET s) =
      (map Print (header (repr_str rt) TARGET s), None)"
    by (intro prints_ok) simp
  from assms(2) have a: "out (line_runtime_crash ?e) = None"
    by (simp add: line_runtime_crash_def cross_mark_def)
  from assms(2) have b: "out line_crash_hint = None"
    by (simp add: line_crash_hint_def)
  have "script_on out rt TARGET s =
          \<lparr>events = map Print (header (repr_str rt) TARGET s)
                      @ [Print (line_runtime_crash ?e), Print line_crash_hint],
           final = s, uncaught = None\<rparr>"
    using rsplit1_none [OF assms(1)]
    by (simp add: script_on_def try_block_def after_import_def except_clauses_def hd a b isinstance_def
        issubclass_def)
  then show ?thesis
    by (simp add: printed_prints calls_append calls_prints line_runtime_crash_def
        line_crash_hint_def cross_mark_def)
qed

text \<open>C9, the amended claim on the target \<open>MemoryFacade\<close> and a standard output in UTF-8.\<close>

theorem dotless_target_reported_as_crash_witness:
  "CHR ''.'' \<notin> set ''MemoryFacade''
   \<and> printed (events (script_on utf8_stdout demo_runtime ''MemoryFacade'' demo_process)) =
       header quote_repr ''MemoryFacade'' demo_process
         @ [''   '' @ [CHR 0xE2, CHR 0x9D, CHR 0x8C]
              @ '' RUNTIME CRASH: not enough values to unpack (expected 2, got 1)'',
            ''   (Your code has a bug/circular import that prevents loading)'']
   \<and> calls (events (script_on utf8_stdout demo_runtime ''MemoryFacade'' demo_process)) = []
   \<and> uncaught (script_on utf8_stdout demo_runtime ''MemoryFacade'' demo_process) = None"
proof -
  have nodot: "CHR ''.'' \<notin> set ''MemoryFacade''" by simp
  have taken: "\<forall>x \<in> set (header (repr_str demo_runtime) ''MemoryFacade'' demo_process
               @ [''   '' @ [CHR 0xE2, CHR 0x9D, CHR 0x8C]
                    @ '' RUNTIME CRASH: not enough values to unpack (expected 2, got 1)'',
                  ''   (Your code has a bug/circular import that prevents loading)'']).
             utf8_stdout x = None"
    by (simp add: utf8_stdout_def)
  from dotless_target_reported_as_crash [OF nodot taken] nodot
  show ?thesis by (simp add: demo_repr)
qed

subsection \<open>The state of the process\<close>







subsection \<open>The header\<close>


end
